theory Spec2Isabelle
  imports Main "HOL-Library.Char_ord" "HOL-Library.List_Lexorder" "HOL-Library.Option_ord"
begin

section \<open>merger.py: merging two SQLite databases with priority override\<close>

text \<open>
  The program is one Python file, \<^verbatim>\<open>merger.py\<close>, with three functions:
  \<^verbatim>\<open>get_primary_keys\<close>, \<^verbatim>\<open>merge_tables_by_key\<close> and \<^verbatim>\<open>merge_databases\<close>.
  It works on SQLite connections and on pandas DataFrames. Both libraries are outside the
  repository; what the program reads from them is modelled below, each piece with the
  documented library behaviour it stands for.
\<close>

subsection \<open>Errors\<close>

text \<open>
  Python exceptions are values of \<open>error\<close>. \<open>KeyError\<close> and \<open>ValueError\<close> are raised by
  pandas' \<^verbatim>\<open>set_index\<close>; \<open>DatabaseError\<close> stands for any exception of the storage layer
  (\<^verbatim>\<open>sqlite3\<close>, \<^verbatim>\<open>pd.read_sql\<close>, \<^verbatim>\<open>to_sql\<close>). \<open>Unmodelled\<close> marks the two inputs on
  which the behaviour of pandas is not modelled here: a null value in a key column and a
  key tuple occurring twice in one DataFrame. Both are excluded by the data model of the
  specification (merge keys are non-null and unique); pandas does not raise there, it
  returns a frame that the model does not describe, and no theorem below speaks about
  these inputs.
\<close>

datatype error =
    KeyError "string list"
  | ValueError string
  | DatabaseError string
  | Unmodelled string

subsection \<open>SchemaInspector: \<^verbatim>\<open>get_primary_keys\<close>\<close>

text \<open>
  \<^verbatim>\<open>PRAGMA table_info(t)\<close> returns one row per column of the table, in column order, with
  the six fields \<^verbatim>\<open>(cid, name, type, notnull, dflt_value, pk)\<close>. SQLite documents the last
  field as: zero for a column that is not part of the primary key, and otherwise the
  1-based position of the column within the primary key. The source reads the fields
  \<^verbatim>\<open>row[1]\<close> and \<^verbatim>\<open>row[5]\<close>.
\<close>

record table_info_row =
  ti_cid :: int
  ti_name :: string
  ti_type :: string
  ti_notnull :: int
  ti_dflt_value :: "string option"
  ti_pk :: int

text \<open>
  \<^verbatim>\<open>
  def get_primary_keys(conn, table_name):
      """Returns a list of primary key columns for a given table."""
      cursor = conn.execute(f"PRAGMA table_info({table_name})")
      return [row[1] for row in cursor.fetchall() if row[5] == 1]
  \<close>
  The connection is the capability that runs the pragma: a function from the table name
  to the rows, or to the exception the statement raises.
\<close>

type_synonym pragma_conn = "string \<Rightarrow> error + table_info_row list"

definition get_primary_keys :: "pragma_conn \<Rightarrow> string \<Rightarrow> error + string list" where
  "get_primary_keys conn table_name =
     (case conn table_name of
        Inl e \<Rightarrow> Inl e
      | Inr fetched \<Rightarrow> Inr [ti_name row. row \<leftarrow> fetched, ti_pk row = 1])"

text \<open>
  What the claim calls the columns flagged as primary key: every column whose \<open>pk\<close>
  field is not zero, in the order of the schema.
\<close>

definition declared_primary_key :: "table_info_row list \<Rightarrow> string list" where
  "declared_primary_key fetched = [ti_name row. row \<leftarrow> fetched, ti_pk row \<noteq> 0]"

text \<open>
  The rows that SQLite returns for
  \<^verbatim>\<open>CREATE TABLE t (a INTEGER, b INTEGER, c TEXT, PRIMARY KEY (a, b))\<close>.
\<close>

definition composite_info :: "table_info_row list" where
  "composite_info =
     [\<lparr>ti_cid = 0, ti_name = ''a'', ti_type = ''INTEGER'', ti_notnull = 0,
        ti_dflt_value = None, ti_pk = 1\<rparr>,
      \<lparr>ti_cid = 1, ti_name = ''b'', ti_type = ''INTEGER'', ti_notnull = 0,
        ti_dflt_value = None, ti_pk = 2\<rparr>,
      \<lparr>ti_cid = 2, ti_name = ''c'', ti_type = ''TEXT'', ti_notnull = 0,
        ti_dflt_value = None, ti_pk = 0\<rparr>]"

subsection \<open>DataFrames\<close>

text \<open>
  A DataFrame as \<^verbatim>\<open>pd.read_sql\<close> returns it: the column names in order and the rows, each
  row holding one cell per column. A cell is a value or null (\<^verbatim>\<open>None\<close>/\<^verbatim>\<open>NaN\<close>): \<open>None\<close>
  is null. The type of values is a parameter with a linear order (pandas sorts labels).
\<close>

type_synonym 'v cell = "'v option"

record 'v dataframe =
  columns :: "string list"
  rows :: "'v cell list list"

text \<open>\<open>cell_at cols row c\<close> is \<^verbatim>\<open>row[c]\<close>: the cell of the row under the column named \<open>c\<close>.\<close>

definition cell_at :: "string list \<Rightarrow> 'v cell list \<Rightarrow> string \<Rightarrow> 'v cell" where
  "cell_at cols row c = (case map_of (zip cols row) c of Some v \<Rightarrow> v | None \<Rightarrow> None)"

text \<open>
  pandas stores each column in one representation, its dtype. Of the dtypes the three that
  \<^verbatim>\<open>pd.read_sql\<close> produces from SQLite matter here: \<^verbatim>\<open>int64\<close>, \<^verbatim>\<open>float64\<close> and
  \<^verbatim>\<open>object\<close>. What the imported module \<^verbatim>\<open>pd\<close> does with a value is a parameter of the
  model: the dtype a value has by itself, and the value that comes back when it is
  converted to \<^verbatim>\<open>float64\<close>.
\<close>

datatype dtype = Int64 | Float64 | Object

record 'v pandas =
  dtype_of :: "'v \<Rightarrow> dtype"
  astype_float64 :: "'v \<Rightarrow> 'v"

text \<open>
  The dtype of a column, from its cells: \<^verbatim>\<open>object\<close> when it holds an object value or no
  value at all, otherwise \<^verbatim>\<open>float64\<close> when it holds a null (\<^verbatim>\<open>NaN\<close>) or a float, otherwise
  \<^verbatim>\<open>int64\<close>.
\<close>

definition column_dtype :: "'v pandas \<Rightarrow> 'v cell list \<Rightarrow> dtype" where
  "column_dtype pd cells =
     (let kinds = [dtype_of pd v. Some v \<leftarrow> cells]
      in if kinds = [] \<or> Object \<in> set kinds then Object
         else if None \<in> set cells \<or> Float64 \<in> set kinds then Float64
         else Int64)"

text \<open>
  A DataFrame after \<^verbatim>\<open>set_index(keys)\<close>: the key columns have become the row labels
  (one tuple of key values per row), the other columns stay as data.
\<close>

record 'v indexed_frame =
  index_names :: "string list"
  index :: "'v list list"
  data_columns :: "string list"
  data :: "'v cell list list"

text \<open>
  \<^verbatim>\<open>df.set_index(keys)\<close> (pandas, \<^verbatim>\<open>drop=True\<close>): raises \<^verbatim>\<open>KeyError\<close> naming the keys that
  are not columns, and \<^verbatim>\<open>ValueError\<close> for an empty list of keys. A null key value is
  where the model stops (\<open>Unmodelled\<close>).
\<close>

definition set_index :: "'v dataframe \<Rightarrow> string list \<Rightarrow> error + 'v indexed_frame" where
  "set_index df keys =
     (let missing = filter (\<lambda>k. k \<notin> set (columns df)) keys;
          labels = map (\<lambda>row. map (cell_at (columns df) row) keys) (rows df);
          rest = filter (\<lambda>c. c \<notin> set keys) (columns df)
      in if missing \<noteq> [] then Inl (KeyError missing)
         else if keys = [] then Inl (ValueError ''Must pass non-zero number of levels/codes'')
         else if None \<in> set (concat labels) then Inl (Unmodelled ''null key value'')
         else Inr \<lparr>index_names = keys,
                   index = map (map the) labels,
                   data_columns = rest,
                   data = map (\<lambda>row. map (cell_at (columns df) row) rest) (rows df)\<rparr>)"

text \<open>
  The row labels of the combined frame. \<^verbatim>\<open>combine_first\<close> aligns the two frames only
  when their indexes are not equal, so two equal indexes stay in the order they have; and
  with an empty \<^verbatim>\<open>other\<close> the rows of \<^verbatim>\<open>self\<close> stay in their order. In every other case
  the labels are the sorted union of the two indexes (an outer join of indexes sorts).
\<close>

definition union_index :: "('a::linorder) list \<Rightarrow> 'a list \<Rightarrow> 'a list" where
  "union_index xs ys =
     (if xs = ys \<or> ys = [] then xs
      else sort (remdups (xs @ ys)))"

text \<open>
  The data columns of the combined frame: those of \<^verbatim>\<open>self\<close> in their order, then the
  columns only \<^verbatim>\<open>other\<close> has. (The orchestrator merges frames with equal column sets
  only, where this is the priority order.)
\<close>

definition union_columns :: "string list \<Rightarrow> string list \<Rightarrow> string list" where
  "union_columns xs ys = xs @ filter (\<lambda>c. c \<notin> set xs) ys"

text \<open>\<open>loc fr k c\<close> is \<^verbatim>\<open>fr.loc[k, c]\<close>, and null where the frame has no row labelled \<open>k\<close>.\<close>

definition loc :: "'v indexed_frame \<Rightarrow> 'v list \<Rightarrow> string \<Rightarrow> 'v cell" where
  "loc fr k c =
     (case map_of (zip (index fr) (data fr)) k of
        None \<Rightarrow> None
      | Some row \<Rightarrow> cell_at (data_columns fr) row c)"

text \<open>
  Aligning a frame to the combined index. A frame that lacks one of the labels gets a row
  of \<^verbatim>\<open>NaN\<close> there, which turns its \<^verbatim>\<open>int64\<close> columns into \<^verbatim>\<open>float64\<close>; a frame that
  has every label keeps its dtypes. Then both columns are converted to their common
  dtype: \<^verbatim>\<open>object\<close> if one of them is \<^verbatim>\<open>object\<close>, else \<^verbatim>\<open>float64\<close> if one of them is
  \<^verbatim>\<open>float64\<close>. So the values of a column of \<open>fr\<close> go through \<^verbatim>\<open>float64\<close> when the
  aligned column is \<^verbatim>\<open>float64\<close>, or is \<^verbatim>\<open>int64\<close> beside a \<^verbatim>\<open>float64\<close> column of the
  other frame.
\<close>

definition column :: "'v indexed_frame \<Rightarrow> string \<Rightarrow> 'v cell list" where
  "column fr c = map (\<lambda>row. cell_at (data_columns fr) row c) (data fr)"

definition aligned_dtype ::
  "'v pandas \<Rightarrow> 'v indexed_frame \<Rightarrow> 'v list list \<Rightarrow> string \<Rightarrow> dtype" where
  "aligned_dtype pd fr new_index c =
     (if column_dtype pd (column fr c) = Int64 \<and> \<not> set new_index \<subseteq> set (index fr)
      then Float64 else column_dtype pd (column fr c))"

definition through_float64 ::
  "'v pandas \<Rightarrow> 'v indexed_frame \<Rightarrow> 'v indexed_frame \<Rightarrow> 'v list list \<Rightarrow> string \<Rightarrow> bool" where
  "through_float64 pd fr other new_index c \<longleftrightarrow>
     aligned_dtype pd fr new_index c = Float64 \<or>
     (aligned_dtype pd fr new_index c = Int64 \<and>
      aligned_dtype pd other new_index c = Float64)"

definition aligned_cell ::
  "'v pandas \<Rightarrow> 'v indexed_frame \<Rightarrow> 'v indexed_frame \<Rightarrow> 'v list list \<Rightarrow>
   'v list \<Rightarrow> string \<Rightarrow> 'v cell" where
  "aligned_cell pd fr other new_index k c =
     (if through_float64 pd fr other new_index c
      then map_option (astype_float64 pd) (loc fr k c)
      else loc fr k c)"

text \<open>
  \<^verbatim>\<open>self.combine_first(other)\<close>: pandas documents it as updating the null elements of
  \<^verbatim>\<open>self\<close> with the value at the same location in \<^verbatim>\<open>other\<close>, the row and column indexes
  of the result being the union of the two. The values are those of the aligned frames.
  Duplicate row labels are where the model stops (\<open>Unmodelled\<close>).
\<close>

definition combine_first ::
  "('v::linorder) pandas \<Rightarrow> 'v indexed_frame \<Rightarrow> 'v indexed_frame \<Rightarrow>
   error + 'v indexed_frame" where
  "combine_first pd self other =
     (let new_index = union_index (index self) (index other);
          new_columns = union_columns (data_columns self) (data_columns other)
      in if distinct (index self) \<and> distinct (index other)
         then Inr \<lparr>index_names = index_names self,
                   index = new_index,
                   data_columns = new_columns,
                   data = map (\<lambda>k. map (\<lambda>c.
                                 case aligned_cell pd self other new_index k c of
                                   Some v \<Rightarrow> Some v
                                 | None \<Rightarrow> aligned_cell pd other self new_index k c)
                               new_columns)
                              new_index\<rparr>
         else Inl (Unmodelled ''duplicate key''))"

text \<open>\<^verbatim>\<open>fr.reset_index()\<close>: the labels become the leading columns again.\<close>

definition reset_index :: "'v indexed_frame \<Rightarrow> 'v dataframe" where
  "reset_index fr =
     \<lparr>columns = index_names fr @ data_columns fr,
      rows = map (\<lambda>(k, row). map Some k @ row) (zip (index fr) (data fr))\<rparr>"

subsection \<open>TableMerger: \<^verbatim>\<open>merge_tables_by_key\<close>\<close>

text \<open>
  \<^verbatim>\<open>
  def merge_tables_by_key(df_priority, df_fallback, primary_keys):
      df_priority = df_priority.set_index(primary_keys)
      df_fallback = df_fallback.set_index(primary_keys)
      df_merged = df_priority.combine_first(df_fallback).reset_index()
      return df_merged
  \<close>
  The first argument is the imported module \<^verbatim>\<open>pd\<close>.
\<close>

definition merge_tables_by_key ::
  "('v::linorder) pandas \<Rightarrow> 'v dataframe \<Rightarrow> 'v dataframe \<Rightarrow> string list \<Rightarrow>
   error + 'v dataframe" where
  "merge_tables_by_key pd df_priority df_fallback primary_keys =
     (case set_index df_priority primary_keys of
        Inl e \<Rightarrow> Inl e
      | Inr df_priority' \<Rightarrow>
          (case set_index df_fallback primary_keys of
             Inl e \<Rightarrow> Inl e
           | Inr df_fallback' \<Rightarrow>
               (case combine_first pd df_priority' df_fallback' of
                  Inl e \<Rightarrow> Inl e
                | Inr combined \<Rightarrow> Inr (reset_index combined))))"

text \<open>
  The vocabulary of the claims. The merge key of a row is the tuple of its cells at the
  key columns; \<open>key_tuples\<close> lists the merge keys of a DataFrame in row
  order. \<open>row_of\<close> finds the row with a given merge key.
\<close>

definition merge_key :: "string list \<Rightarrow> string list \<Rightarrow> 'v cell list \<Rightarrow> 'v cell list" where
  "merge_key cols keys row = map (cell_at cols row) keys"

definition key_tuples :: "'v dataframe \<Rightarrow> string list \<Rightarrow> 'v cell list list" where
  "key_tuples df keys = map (merge_key (columns df) keys) (rows df)"


text \<open>
  The inputs the TableMerger is specified for: two DataFrames with the same set of column
  names, a non-empty list of key columns that are columns of both, and in
  each DataFrame merge keys that are non-null and unique.
\<close>

definition mergeable :: "'v dataframe \<Rightarrow> 'v dataframe \<Rightarrow> string list \<Rightarrow> bool" where
  "mergeable df_priority df_fallback keys \<longleftrightarrow>
     set (columns df_priority) = set (columns df_fallback) \<and>
     keys \<noteq> [] \<and> set keys \<subseteq> set (columns df_priority) \<and>
     None \<notin> set (concat (key_tuples df_priority keys)) \<and>
     None \<notin> set (concat (key_tuples df_fallback keys)) \<and>
     distinct (key_tuples df_priority keys) \<and>
     distinct (key_tuples df_fallback keys)"


text \<open>
  Names for the parts of the merge, used in the proofs: the labels \<^verbatim>\<open>set_index\<close> gives
  the rows of a DataFrame, the columns it leaves as data, the indexed frame itself, and
  the cell \<^verbatim>\<open>combine_first\<close> computes for a label and a column.
\<close>

definition ix :: "'v dataframe \<Rightarrow> string list \<Rightarrow> 'v list list" where
  "ix df keys = map (map the) (key_tuples df keys)"

definition rest_cols :: "'v dataframe \<Rightarrow> string list \<Rightarrow> string list" where
  "rest_cols df keys = filter (\<lambda>c. c \<notin> set keys) (columns df)"

definition indexed :: "'v dataframe \<Rightarrow> string list \<Rightarrow> 'v indexed_frame" where
  "indexed df keys =
     \<lparr>index_names = keys, index = ix df keys, data_columns = rest_cols df keys,
      data = map (\<lambda>row. map (cell_at (columns df) row) (rest_cols df keys)) (rows df)\<rparr>"

definition overlay ::
  "('v::linorder) pandas \<Rightarrow> 'v dataframe \<Rightarrow> 'v dataframe \<Rightarrow> string list \<Rightarrow>
   'v list \<Rightarrow> string \<Rightarrow> 'v cell" where
  "overlay pd p f keys k c =
     (case aligned_cell pd (indexed p keys) (indexed f keys)
             (union_index (ix p keys) (ix f keys)) k c of
        Some v \<Rightarrow> Some v
      | None \<Rightarrow> aligned_cell pd (indexed f keys) (indexed p keys)
                  (union_index (ix p keys) (ix f keys)) k c)"

text \<open>
  The conversion of an integer to \<^verbatim>\<open>float64\<close> and back: the nearest number with a
  significand of 53 bits, ties going to the even significand. SQLite integers have 64
  bits, so the numbers from 2^53 on lie in one of the eleven ranges that start at 2^53,
  ..., 2^63; in the j-th of them neighbouring floats are 2^j apart.
\<close>

definition float64_spacing :: "int \<Rightarrow> int" where
  "float64_spacing a =
     2 ^ length (filter (\<lambda>j. 2 ^ j \<le> a) [53, 54, 55, 56, 57, 58, 59, 60, 61, 62, 63 :: nat])"

definition float64_of_int :: "int \<Rightarrow> int" where
  "float64_of_int n =
     (let a = \<bar>n\<bar>; u = float64_spacing a; q = a div u; r = a mod u;
          q' = (if u < 2 * r \<or> (2 * r = u \<and> odd q) then q + 1 else q)
      in sgn n * (q' * u))"

text \<open>
  Two instances of the parameter: tables whose values are all text (every column is
  \<^verbatim>\<open>object\<close>, nothing is converted), and tables whose values are all integers.
\<close>

definition text_values :: "string pandas" where
  "text_values = \<lparr>dtype_of = (\<lambda>v. Object), astype_float64 = (\<lambda>v. v)\<rparr>"


subsection \<open>Example tables\<close>

text \<open>
  The end-to-end scenario of the specification: table \<^verbatim>\<open>users\<close> with primary key \<^verbatim>\<open>id\<close>.
  All values are written as text.
\<close>

definition users_priority :: "string dataframe" where
  "users_priority =
     \<lparr>columns = [''id'', ''name'', ''email''],
      rows = [[Some ''1'', Some ''Alice'', None]]\<rparr>"

definition users_fallback :: "string dataframe" where
  "users_fallback =
     \<lparr>columns = [''id'', ''name'', ''email''],
      rows = [[Some ''1'', Some ''Alice'', Some ''alice@x.com''],
              [Some ''2'', Some ''Bob'', Some ''bob@x.com'']]\<rparr>"








subsection \<open>MergeOrchestrator: \<^verbatim>\<open>merge_databases\<close>\<close>

text \<open>
  What the run can observe of the outside world is the record \<open>env\<close>: whether a path
  exists (\<^verbatim>\<open>os.path.exists\<close>), whether \<^verbatim>\<open>sqlite3.connect\<close> on a path raises, the table
  names of the priority database or the exception their query raises, the rows of a table
  in each source (\<^verbatim>\<open>pd.read_sql\<close>), the pragma on the priority connection, and whether
  \<^verbatim>\<open>to_sql\<close> raises for a table. Each capability may fail with any exception. The field
  \<open>pd_module\<close> is the imported pandas module \<^verbatim>\<open>pd\<close>.
  The three databases are taken to be three different files.
\<close>

record 'v env =
  pd_module :: "'v pandas"
  path_exists :: "string \<Rightarrow> bool"
  connect :: "string \<Rightarrow> error option"
  table_list :: "error + string list"
  read_priority :: "string \<Rightarrow> error + 'v dataframe"
  read_fallback :: "string \<Rightarrow> error + 'v dataframe"
  table_info :: pragma_conn
  to_sql_fault :: "string \<Rightarrow> 'v dataframe \<Rightarrow> error option"

text \<open>The lines the program prints, one constructor per \<^verbatim>\<open>print\<close> statement.\<close>

datatype message =
    FileNotFound string
  | MergingTable string
  | SchemaMismatch string
  | UsingFallbackKeys string "string list"
  | NoPrimaryKey string
  | Merged nat string
  | ErrorMerging string error
  | MergeComplete string

datatype handle = ConnPriority | ConnFallback | ConnOutput

text \<open>
  The state of a run: the tables of the output database, what has been printed so far
  and the connections that are open.
\<close>

record 'v run_state =
  output_db :: "string \<rightharpoonup> 'v dataframe"
  printed :: "message list"
  open_handles :: "handle list"

text \<open>
  How a run ends: it returns, it leaves through \<^verbatim>\<open>sys.exit\<close> with a code, or an exception
  propagates out of \<^verbatim>\<open>merge_databases\<close>.
\<close>

datatype exit_status = Returned | SysExit int | Uncaught error

definition say :: "message \<Rightarrow> 'v run_state \<Rightarrow> 'v run_state" where
  "say msg st = st\<lparr>printed := printed st @ [msg]\<rparr>"

definition opened :: "handle \<Rightarrow> 'v run_state \<Rightarrow> 'v run_state" where
  "opened h st = st\<lparr>open_handles := open_handles st @ [h]\<rparr>"

definition closed :: "handle \<Rightarrow> 'v run_state \<Rightarrow> 'v run_state" where
  "closed h st = st\<lparr>open_handles := removeAll h (open_handles st)\<rparr>"

text \<open>
  \<^verbatim>\<open>str.lower()\<close> on the table name. Characters are bytes here, and the letters
  \<^verbatim>\<open>A\<close> to \<^verbatim>\<open>Z\<close> are mapped to \<^verbatim>\<open>a\<close> to \<^verbatim>\<open>z\<close>; this is Python's \<^verbatim>\<open>lower\<close> on ASCII names.
\<close>

definition lower_char :: "char \<Rightarrow> char" where
  "lower_char c =
     (if (65::nat) \<le> of_char c \<and> of_char c \<le> (90::nat)
      then char_of (of_char c + (32::nat)) else c)"

definition lower :: "string \<Rightarrow> string" where
  "lower s = map lower_char s"

text \<open>
  Lines 60 to 65 of the source, the merge and the write, inside the \<^verbatim>\<open>try\<close> block:
  \<^verbatim>\<open>
  df_merged = merge_tables_by_key(df_priority, df_fallback, primary_keys)
  df_merged.to_sql(table, conn_output, if_exists='replace', index=False)
  print(f"Merged {len(df_merged)} rows into '{table}'")
  \<close>
  A result \<open>Inl (e, st)\<close> is the exception \<open>e\<close> leaving the \<^verbatim>\<open>try\<close> block in state \<open>st\<close>.
  A write that raises is taken to leave the output database as it was.
\<close>

definition merge_and_write ::
  "('v::linorder) env \<Rightarrow> string \<Rightarrow> 'v dataframe \<Rightarrow> 'v dataframe \<Rightarrow> string list \<Rightarrow>
   'v run_state \<Rightarrow> (error \<times> 'v run_state) + 'v run_state" where
  "merge_and_write env table df_priority df_fallback primary_keys st =
     (case merge_tables_by_key (pd_module env) df_priority df_fallback primary_keys of
        Inl e \<Rightarrow> Inl (e, st)
      | Inr df_merged \<Rightarrow>
          (case to_sql_fault env table df_merged of
             Some e \<Rightarrow> Inl (e, st)
           | None \<Rightarrow>
               Inr (say (Merged (length (rows df_merged)) table)
                      (st\<lparr>output_db := (output_db st)(table \<mapsto> df_merged)\<rparr>))))"

text \<open>
  The body of the \<^verbatim>\<open>try\<close> block, lines 41 to 65; \<^verbatim>\<open>continue\<close> is a normal end of the
  body.
\<close>

definition try_body ::
  "('v::linorder) env \<Rightarrow> string \<Rightarrow> 'v run_state \<Rightarrow> (error \<times> 'v run_state) + 'v run_state" where
  "try_body env table st =
     (case read_priority env table of
        Inl e \<Rightarrow> Inl (e, st)
      | Inr df_priority \<Rightarrow>
     (case read_fallback env table of
        Inl e \<Rightarrow> Inl (e, st)
      | Inr df_fallback \<Rightarrow>
     if set (columns df_priority) \<noteq> set (columns df_fallback)
     then Inr (say (SchemaMismatch table) st)
     else
     (case get_primary_keys (table_info env) table of
        Inl e \<Rightarrow> Inl (e, st)
      | Inr primary_keys \<Rightarrow>
     if primary_keys = [] then
       (if lower table = ''matches''
        then merge_and_write env table df_priority df_fallback [''key'', ''team_key'']
               (say (UsingFallbackKeys table [''key'', ''team_key'']) st)
        else Inr (say (NoPrimaryKey table) st))
     else merge_and_write env table df_priority df_fallback primary_keys st)))"

text \<open>
  One iteration of the loop, lines 37 to 68: the first \<^verbatim>\<open>print\<close>, the \<^verbatim>\<open>try\<close> block and
  its handler \<^verbatim>\<open>except Exception as e\<close>, which prints the error and lets the loop go on.
\<close>

definition merge_table :: "('v::linorder) env \<Rightarrow> string \<Rightarrow> 'v run_state \<Rightarrow> 'v run_state" where
  "merge_table env table st =
     (case try_body env table (say (MergingTable table) st) of
        Inl (e, st') \<Rightarrow> say (ErrorMerging table e) st'
      | Inr st' \<Rightarrow> st')"

fun merge_loop :: "('v::linorder) env \<Rightarrow> string list \<Rightarrow> 'v run_state \<Rightarrow> 'v run_state" where
  "merge_loop env [] st = st"
| "merge_loop env (table # table_names) st =
     merge_loop env table_names (merge_table env table st)"

text \<open>
  \<^verbatim>\<open>merge_databases\<close>, lines 21 to 74. The run starts with no connection open, nothing
  printed and the output database holding whatever the file at the output path holds
  (\<open>out0\<close>; empty for a new file). The path check leaves through \<^verbatim>\<open>sys.exit(1)\<close> at the
  first missing path. The three \<^verbatim>\<open>sqlite3.connect\<close> calls and the query for the table
  names are outside any \<^verbatim>\<open>try\<close>: an exception there leaves the function at once.
\<close>

definition initial_state :: "(string \<rightharpoonup> 'v dataframe) \<Rightarrow> 'v run_state" where
  "initial_state out0 = \<lparr>output_db = out0, printed = [], open_handles = []\<rparr>"

definition merge_databases ::
  "('v::linorder) env \<Rightarrow> string \<Rightarrow> string \<Rightarrow> string \<Rightarrow> (string \<rightharpoonup> 'v dataframe) \<Rightarrow>
   'v run_state \<times> exit_status" where
  "merge_databases env priority_db_path fallback_db_path output_db_path out0 =
     (let st0 = initial_state out0 in
      case find (\<lambda>path. \<not> path_exists env path) [priority_db_path, fallback_db_path] of
        Some path \<Rightarrow> (say (FileNotFound path) st0, SysExit 1)
      | None \<Rightarrow>
     (case connect env priority_db_path of
        Some e \<Rightarrow> (st0, Uncaught e)
      | None \<Rightarrow>
     (case connect env fallback_db_path of
        Some e \<Rightarrow> (opened ConnPriority st0, Uncaught e)
      | None \<Rightarrow>
     (case connect env output_db_path of
        Some e \<Rightarrow> (opened ConnFallback (opened ConnPriority st0), Uncaught e)
      | None \<Rightarrow>
     (let st1 = opened ConnOutput (opened ConnFallback (opened ConnPriority st0)) in
      case table_list env of
        Inl e \<Rightarrow> (st1, Uncaught e)
      | Inr table_names \<Rightarrow>
          (let st2 = merge_loop env table_names st1;
               st3 = closed ConnOutput (closed ConnFallback (closed ConnPriority st2))
           in (say (MergeComplete output_db_path) st3, Returned)))))))"

text \<open>The tables a run has attempted, read off the printed lines, in order.\<close>

fun attempted :: "message list \<Rightarrow> string list" where
  "attempted [] = []"
| "attempted (MergingTable t # msgs) = t # attempted msgs"
| "attempted (_ # msgs) = attempted msgs"

text \<open>
  The exception that leaves the \<^verbatim>\<open>try\<close> block for a table, if one does: raised while
  loading the two row sets, while reading the primary key, while merging or while writing.
\<close>

definition raised_in_try :: "('v::linorder) env \<Rightarrow> string \<Rightarrow> 'v run_state \<Rightarrow> error option" where
  "raised_in_try env table st =
     (case try_body env table st of Inl (e, _) \<Rightarrow> Some e | Inr _ \<Rightarrow> None)"

subsection \<open>An example run\<close>

text \<open>
  A small world for the orchestrator. The priority database lists five tables:
  \<^verbatim>\<open>users\<close> with primary key \<^verbatim>\<open>id\<close>; \<^verbatim>\<open>broken\<close>, whose rows cannot be read;
  \<^verbatim>\<open>layout\<close>, with columns (a, b) in the priority source and (a, b, c) in the fallback;
  \<^verbatim>\<open>notes\<close> and \<^verbatim>\<open>MATCHES\<close>, both without a declared primary key. The path
  \<^verbatim>\<open>missing.db\<close> does not exist.
\<close>

definition no_key_info :: "table_info_row list" where
  "no_key_info =
     [\<lparr>ti_cid = 0, ti_name = ''key'', ti_type = ''TEXT'', ti_notnull = 0,
        ti_dflt_value = None, ti_pk = 0\<rparr>,
      \<lparr>ti_cid = 1, ti_name = ''team_key'', ti_type = ''TEXT'', ti_notnull = 0,
        ti_dflt_value = None, ti_pk = 0\<rparr>,
      \<lparr>ti_cid = 2, ti_name = ''score'', ti_type = ''TEXT'', ti_notnull = 0,
        ti_dflt_value = None, ti_pk = 0\<rparr>]"

definition users_info :: "table_info_row list" where
  "users_info =
     [\<lparr>ti_cid = 0, ti_name = ''id'', ti_type = ''TEXT'', ti_notnull = 0,
        ti_dflt_value = None, ti_pk = 1\<rparr>,
      \<lparr>ti_cid = 1, ti_name = ''name'', ti_type = ''TEXT'', ti_notnull = 0,
        ti_dflt_value = None, ti_pk = 0\<rparr>,
      \<lparr>ti_cid = 2, ti_name = ''email'', ti_type = ''TEXT'', ti_notnull = 0,
        ti_dflt_value = None, ti_pk = 0\<rparr>]"

definition matches_priority :: "string dataframe" where
  "matches_priority =
     \<lparr>columns = [''key'', ''team_key'', ''score''],
      rows = [[Some ''qm1'', Some ''frc1'', None], [Some ''qm1'', Some ''frc2'', Some ''7'']]\<rparr>"

definition matches_fallback :: "string dataframe" where
  "matches_fallback =
     \<lparr>columns = [''key'', ''team_key'', ''score''],
      rows = [[Some ''qm1'', Some ''frc1'', Some ''3'']]\<rparr>"

definition matches_merged :: "string dataframe" where
  "matches_merged =
     \<lparr>columns = [''key'', ''team_key'', ''score''],
      rows = [[Some ''qm1'', Some ''frc1'', Some ''3''], [Some ''qm1'', Some ''frc2'', Some ''7'']]\<rparr>"

definition layout_priority :: "string dataframe" where
  "layout_priority = \<lparr>columns = [''a'', ''b''], rows = [[Some ''1'', Some ''2'']]\<rparr>"

definition layout_fallback :: "string dataframe" where
  "layout_fallback = \<lparr>columns = [''a'', ''b'', ''c''], rows = [[Some ''1'', Some ''2'', Some ''3'']]\<rparr>"

definition demo_env :: "string env" where
  "demo_env =
     \<lparr>pd_module = text_values,
      path_exists = (\<lambda>path. path \<noteq> ''missing.db''),
      connect = (\<lambda>path. None),
      table_list = Inr [''users'', ''broken'', ''layout'', ''notes'', ''MATCHES''],
      read_priority = (\<lambda>t.
         if t = ''users'' then Inr users_priority
         else if t = ''layout'' then Inr layout_priority
         else if t = ''notes'' \<or> t = ''MATCHES'' then Inr matches_priority
         else Inl (DatabaseError ''disk I/O error'')),
      read_fallback = (\<lambda>t.
         if t = ''users'' then Inr users_fallback
         else if t = ''layout'' then Inr layout_fallback
         else if t = ''notes'' \<or> t = ''MATCHES'' then Inr matches_fallback
         else Inl (DatabaseError ''no such table'')),
      table_info = (\<lambda>t. if t = ''users'' then Inr users_info else Inr no_key_info),
      to_sql_fault = (\<lambda>t df. None)\<rparr>"

text \<open>The same world when the priority file is not a database: listing its tables raises.\<close>

definition unreadable_env :: "string env" where
  "unreadable_env = demo_env\<lparr>table_list := Inl (DatabaseError ''file is not a database'')\<rparr>"

section \<open>Properties\<close>

subsection \<open>SchemaInspector\<close>

text \<open>
  Claim C3. \<^verbatim>\<open>get_primary_keys\<close> is documented to return the primary key columns of the
  table, and the claim asks for all columns of a composite primary key. On the table with
  \<^verbatim>\<open>PRIMARY KEY (a, b)\<close> the code returns only \<open>a\<close>: the test \<^verbatim>\<open>row[5] == 1\<close> keeps the
  column at position 1 of the key and drops the column at position 2, although the
  declared key is \<open>a, b\<close>.
\<close>

theorem get_primary_keys_composite_first_only:
  "get_primary_keys (\<lambda>_. Inr composite_info) ''t'' = Inr [''a''] \<and>
   declared_primary_key composite_info = [''a'', ''b'']"
  by (simp add: get_primary_keys_def declared_primary_key_def composite_info_def)

subsection \<open>TableMerger\<close>

text \<open>Facts about lists, cells and the union of indexes.\<close>

lemma map_Some_the: "None \<notin> set xs \<Longrightarrow> map Some (map the xs) = xs"
  by (induction xs) auto

lemma map_the_eq_iff:
  "None \<notin> set xs \<Longrightarrow> None \<notin> set ys \<Longrightarrow> map the xs = map the ys \<longleftrightarrow> xs = ys"
  by (metis map_Some_the)

lemma cell_at_map: "c \<in> set cs \<Longrightarrow> cell_at cs (map g cs) c = g c"
  by (simp add: cell_at_def map_of_zip_map)

lemma cell_at_append_left:
  assumes "length ks = length vs" "c \<in> set ks"
  shows "cell_at (ks @ cs) (vs @ ws) c = cell_at ks vs c"
proof -
  from assms have "map_of (zip ks vs) c \<noteq> None"
    by (simp add: map_of_zip_is_None)
  then obtain v where h: "map_of (zip ks vs) c = Some v" by auto
  show ?thesis
    by (simp add: cell_at_def map_add_def assms(1) h)
qed



lemma map2_same: "map2 h xs (map g xs) = map (\<lambda>x. h x (g x)) xs"
  by (induction xs) auto


lemma set_union_index: "set (union_index xs ys) = set xs \<union> set ys"
  by (auto simp: union_index_def)

lemma distinct_union_index:
  "distinct xs \<Longrightarrow> distinct ys \<Longrightarrow> distinct (union_index xs ys)"
  by (auto simp: union_index_def)



text \<open>
  On the specified inputs \<^verbatim>\<open>set_index\<close> succeeds on both DataFrames, the labels are
  distinct, and the merged DataFrame has one row per label of the union (\<open>merge_ok\<close>).
\<close>

lemma set_index_ok:
  assumes "keys \<noteq> []" "set keys \<subseteq> set (columns df)"
    "None \<notin> set (concat (key_tuples df keys))"
  shows "set_index df keys =
     Inr \<lparr>index_names = keys, index = ix df keys, data_columns = rest_cols df keys,
          data = map (\<lambda>row. map (cell_at (columns df) row) (rest_cols df keys)) (rows df)\<rparr>"
proof -
  have m: "filter (\<lambda>k. k \<notin> set (columns df)) keys = []"
    using assms(2) by (auto simp: filter_empty_conv)
  have l: "map (\<lambda>row. map (cell_at (columns df) row) keys) (rows df) = key_tuples df keys"
    by (simp add: key_tuples_def merge_key_def)
  show ?thesis
    unfolding set_index_def Let_def m l
    using assms(1,3) by (simp add: ix_def rest_cols_def)
qed

lemma distinct_ix:
  assumes "None \<notin> set (concat (key_tuples df keys))" "distinct (key_tuples df keys)"
  shows "distinct (ix df keys)"
proof -
  have "inj_on (map the) (set (key_tuples df keys))"
  proof (rule inj_onI)
    fix x y assume "x \<in> set (key_tuples df keys)" "y \<in> set (key_tuples df keys)"
      "map the x = map the y"
    moreover from this assms(1) have "None \<notin> set x" "None \<notin> set y" by auto
    ultimately show "x = y" by (simp add: map_the_eq_iff)
  qed
  with assms(2) show ?thesis by (simp add: ix_def distinct_map)
qed


lemma merge_ok:
  assumes "mergeable p f keys"
  shows "merge_tables_by_key pd p f keys =
     Inr \<lparr>columns = keys @ union_columns (rest_cols p keys) (rest_cols f keys),
          rows = map (\<lambda>k. map Some k @
                          map (overlay pd p f keys k)
                            (union_columns (rest_cols p keys) (rest_cols f keys)))
                     (union_index (ix p keys) (ix f keys))\<rparr>"
proof -
  from assms have h: "keys \<noteq> []" "set keys \<subseteq> set (columns p)"
    "set keys \<subseteq> set (columns f)"
    "None \<notin> set (concat (key_tuples p keys))" "None \<notin> set (concat (key_tuples f keys))"
    "distinct (key_tuples p keys)" "distinct (key_tuples f keys)"
    unfolding mergeable_def by blast+
  have sp: "set_index p keys = Inr (indexed p keys)"
    unfolding indexed_def by (rule set_index_ok [OF h(1,2,4)])
  have sf: "set_index f keys = Inr (indexed f keys)"
    unfolding indexed_def by (rule set_index_ok [OF h(1,3,5)])
  have d: "distinct (ix p keys)" "distinct (ix f keys)"
    by (rule distinct_ix [OF h(4,6)], rule distinct_ix [OF h(5,7)])
  have ii: "index (indexed p keys) = ix p keys" "index (indexed f keys) = ix f keys"
    "data_columns (indexed p keys) = rest_cols p keys"
    "data_columns (indexed f keys) = rest_cols f keys"
    "index_names (indexed p keys) = keys"
    by (simp_all add: indexed_def)
  show ?thesis
    unfolding merge_tables_by_key_def sp sf
    by (simp add: combine_first_def ii d Let_def reset_index_def map2_same overlay_def)
qed

lemma ix_form: "k \<in> set (ix df keys) \<Longrightarrow> \<exists>h. k = map h keys"
  by (auto simp: ix_def key_tuples_def merge_key_def)

lemma map_Some_ix:
  "None \<notin> set (concat (key_tuples df keys)) \<Longrightarrow> map (map Some) (ix df keys) = key_tuples df keys"
proof -
  assume a: "None \<notin> set (concat (key_tuples df keys))"
  have "map (\<lambda>l. map Some (map the l)) (key_tuples df keys) = map (\<lambda>l. l) (key_tuples df keys)"
  proof (rule map_cong [OF refl])
    fix l assume "l \<in> set (key_tuples df keys)"
    with a have "None \<notin> set l" by auto
    then show "map Some (map the l) = l" by (rule map_Some_the)
  qed
  then show ?thesis by (simp add: ix_def comp_def)
qed

lemma merge_key_merged_row:
  "merge_key (keys @ cs) keys (map Some (map h keys) @ ws) = map Some (map h keys)"
  by (simp add: merge_key_def cell_at_append_left cell_at_map)








lemma key_tuples_merged:
  assumes "mergeable p f keys" "merge_tables_by_key pd p f keys = Inr m"
  shows "key_tuples m keys = map (map Some) (union_index (ix p keys) (ix f keys))"
proof -
  let ?C = "union_columns (rest_cols p keys) (rest_cols f keys)"
  have "merge_key (keys @ ?C) keys (map Some k @ map (overlay pd p f keys k) ?C) = map Some k"
    if "k \<in> set (union_index (ix p keys) (ix f keys))" for k
  proof -
    from that obtain h where "k = map h keys"
      using ix_form by (fastforce simp: set_union_index)
    then show ?thesis by (simp only: merge_key_merged_row)
  qed
  then show ?thesis
    using assms(2) unfolding merge_ok [OF assms(1), of pd]
    by (auto simp: key_tuples_def)
qed

lemma set_key_tuples_merged:
  assumes "mergeable p f keys" "merge_tables_by_key pd p f keys = Inr m"
  shows "set (key_tuples m keys) = set (key_tuples p keys) \<union> set (key_tuples f keys)"
proof -
  from assms(1) have h:
    "None \<notin> set (concat (key_tuples p keys))" "None \<notin> set (concat (key_tuples f keys))"
    unfolding mergeable_def by blast+
  have "set (key_tuples m keys) = set (map (map Some) (ix p keys)) \<union> set (map (map Some) (ix f keys))"
    unfolding key_tuples_merged [OF assms] by (simp add: set_union_index image_Un)
  then show ?thesis by (simp only: map_Some_ix [OF h(1)] map_Some_ix [OF h(2)])
qed

lemma distinct_key_tuples_merged:
  assumes "mergeable p f keys" "merge_tables_by_key pd p f keys = Inr m"
  shows "distinct (key_tuples m keys)"
proof -
  from assms(1) have h:
    "None \<notin> set (concat (key_tuples p keys))" "None \<notin> set (concat (key_tuples f keys))"
    "distinct (key_tuples p keys)" "distinct (key_tuples f keys)"
    unfolding mergeable_def by blast+
  have "distinct (union_index (ix p keys) (ix f keys))"
    by (rule distinct_union_index [OF distinct_ix [OF h(1,3)] distinct_ix [OF h(2,4)]])
  then show ?thesis
    unfolding key_tuples_merged [OF assms] by (simp add: distinct_map inj_on_def)
qed




lemma users_merged:
  "merge_tables_by_key text_values users_priority users_fallback [''id''] =
     Inr \<lparr>columns = [''id'', ''name'', ''email''],
          rows = [[Some ''1'', Some ''Alice'', Some ''alice@x.com''],
                  [Some ''2'', Some ''Bob'', Some ''bob@x.com'']]\<rparr>"
  by code_simp

text \<open>
  Integers of magnitude up to 2^53 survive the conversion to \<^verbatim>\<open>float64\<close>; 2^53 + 1 does
  not.
\<close>

lemma float64_of_int_exact: "\<bar>n\<bar> < 2 ^ 53 \<Longrightarrow> float64_of_int n = n"
proof -
  assume a: "\<bar>n\<bar> < 2 ^ 53"
  then have "float64_spacing \<bar>n\<bar> = 1"
    by (simp add: float64_spacing_def)
  then show ?thesis
    by (simp add: float64_of_int_def Let_def sgn_mult_abs)
qed

lemma float64_of_int_rounds:
  "float64_of_int 9007199254740992 = 9007199254740992 \<and>
   float64_of_int 9007199254740993 = 9007199254740992"
  by code_simp




text \<open>
  Claim C2. On the same inputs the merged DataFrame has exactly one row per merge key of
  either input: its merge keys are pairwise different, they are the union of the two
  inputs' merge keys, and the number of rows is the cardinality of that union.
\<close>

theorem merge_one_row_per_key:
  assumes "mergeable df_priority df_fallback keys"
  shows "\<exists>m. merge_tables_by_key pd df_priority df_fallback keys = Inr m \<and>
             distinct (key_tuples m keys) \<and>
             set (key_tuples m keys) =
               set (key_tuples df_priority keys) \<union> set (key_tuples df_fallback keys) \<and>
             length (rows m) =
               card (set (key_tuples df_priority keys) \<union> set (key_tuples df_fallback keys))"
proof -
  obtain m where m: "merge_tables_by_key pd df_priority df_fallback keys = Inr m"
    using merge_ok [OF assms, of pd] by blast
  have d: "distinct (key_tuples m keys)"
    by (rule distinct_key_tuples_merged [OF assms m])
  have s: "set (key_tuples m keys) =
      set (key_tuples df_priority keys) \<union> set (key_tuples df_fallback keys)"
    by (rule set_key_tuples_merged [OF assms m])
  have "length (rows m) = length (key_tuples m keys)"
    by (simp add: key_tuples_def)
  also have "\<dots> = card (set (key_tuples m keys))"
    using d by (simp add: distinct_card)
  finally have "length (rows m) =
      card (set (key_tuples df_priority keys) \<union> set (key_tuples df_fallback keys))"
    by (simp only: s)
  with m d s show ?thesis by blast
qed

theorem merge_one_row_per_key_witness:
  "mergeable users_priority users_fallback [''id''] \<and>
   (\<exists>m. merge_tables_by_key text_values users_priority users_fallback [''id''] = Inr m \<and>
        distinct (key_tuples m [''id'']) \<and>
        set (key_tuples m [''id'']) =
          set (key_tuples users_priority [''id'']) \<union> set (key_tuples users_fallback [''id'']) \<and>
        length (rows m) = 2)"
proof -
  have h: "mergeable users_priority users_fallback [''id'']" by code_simp
  have c: "card (set (key_tuples users_priority [''id'']) \<union>
                 set (key_tuples users_fallback [''id''])) = 2"
    by code_simp
  show ?thesis
    using h merge_one_row_per_key [OF h, of text_values] unfolding c by blast
qed




subsection \<open>MergeOrchestrator\<close>

lemma say_simps:
  "printed (say msg st) = printed st @ [msg]"
  "output_db (say msg st) = output_db st"
  "open_handles (say msg st) = open_handles st"
  by (simp_all add: say_def)

lemma opened_simps:
  "printed (opened h st) = printed st"
  "output_db (opened h st) = output_db st"
  "open_handles (opened h st) = open_handles st @ [h]"
  by (simp_all add: opened_def)

lemma closed_simps:
  "printed (closed h st) = printed st"
  "output_db (closed h st) = output_db st"
  "open_handles (closed h st) = removeAll h (open_handles st)"
  by (simp_all add: closed_def)

lemma attempted_append: "attempted (xs @ ys) = attempted xs @ attempted ys"
  by (induction xs rule: attempted.induct) simp_all

text \<open>What the try block can do to the state.\<close>

lemma merge_and_write_Inl:
  "merge_and_write env t dfp dff ks st = Inl (e, st') \<Longrightarrow> st' = st"
  by (auto simp: merge_and_write_def split: sum.splits option.splits)

lemma merge_and_write_Inr:
  "merge_and_write env t dfp dff ks st = Inr st' \<Longrightarrow>
   \<exists>m. merge_tables_by_key (pd_module env) dfp dff ks = Inr m \<and> to_sql_fault env t m = None \<and>
       st' = say (Merged (length (rows m)) t) (st\<lparr>output_db := (output_db st)(t \<mapsto> m)\<rparr>)"
  by (auto simp: merge_and_write_def split: sum.splits option.splits)

lemma try_body_Inl:
  assumes "try_body env t st = Inl (e, st')"
  shows "open_handles st' = open_handles st \<and> output_db st' = output_db st \<and>
         attempted (printed st') = attempted (printed st) \<and>
         set (printed st) \<subseteq> set (printed st')"
  using assms
  by (auto simp: try_body_def say_simps attempted_append
        split: sum.splits if_splits dest!: merge_and_write_Inl)

lemma try_body_Inr:
  assumes "try_body env t st = Inr st'"
  shows "open_handles st' = open_handles st \<and>
         (\<forall>t'. t' \<noteq> t \<longrightarrow> output_db st' t' = output_db st t') \<and>
         attempted (printed st') = attempted (printed st) \<and>
         set (printed st) \<subseteq> set (printed st')"
  using assms
  by (auto simp: try_body_def say_simps attempted_append
        split: sum.splits if_splits dest!: merge_and_write_Inr)

lemma merge_table_frame:
  "open_handles (merge_table env t st) = open_handles st \<and>
   (\<forall>t'. t' \<noteq> t \<longrightarrow> output_db (merge_table env t st) t' = output_db st t') \<and>
   attempted (printed (merge_table env t st)) = attempted (printed st) @ [t] \<and>
   set (printed st) \<subseteq> set (printed (merge_table env t st))"
proof (cases "try_body env t (say (MergingTable t) st)")
  case (Inl a)
  obtain e st' where a: "a = (e, st')" by (cases a)
  from try_body_Inl [OF Inl [unfolded a]] show ?thesis
    by (auto simp: merge_table_def Inl a say_simps attempted_append)
next
  case (Inr st')
  from try_body_Inr [OF Inr] show ?thesis
    by (auto simp: merge_table_def Inr say_simps attempted_append)
qed

lemma merge_loop_frame:
  "open_handles (merge_loop env ts st) = open_handles st \<and>
   attempted (printed (merge_loop env ts st)) = attempted (printed st) @ ts \<and>
   set (printed st) \<subseteq> set (printed (merge_loop env ts st))"
proof (induction ts arbitrary: st)
  case Nil
  show ?case by simp
next
  case (Cons t ts)
  from Cons [of "merge_table env t st"] merge_table_frame [of env t st]
  show ?case by auto
qed


lemma raised_in_try_state: "raised_in_try env t st = raised_in_try env t st'"
  by (simp add: raised_in_try_def try_body_def merge_and_write_def
        split: sum.split option.split)

lemma merge_table_records:
  assumes "raised_in_try env t st0 = Some e"
  shows "ErrorMerging t e \<in> set (printed (merge_table env t st))"
proof -
  from assms have "raised_in_try env t (say (MergingTable t) st) = Some e"
    using raised_in_try_state [of env t st0 "say (MergingTable t) st"] by simp
  then obtain st' where "try_body env t (say (MergingTable t) st) = Inl (e, st')"
    by (auto simp: raised_in_try_def split: sum.splits)
  then show ?thesis by (simp add: merge_table_def say_simps)
qed

lemma merge_loop_records:
  assumes "t \<in> set ts" "raised_in_try env t st0 = Some e"
  shows "ErrorMerging t e \<in> set (printed (merge_loop env ts st))"
  using assms(1)
proof (induction ts arbitrary: st)
  case Nil
  then show ?case by simp
next
  case (Cons a ts)
  show ?case
  proof (cases "t = a")
    case True
    have "ErrorMerging t e \<in> set (printed (merge_table env a st))"
      unfolding True [symmetric] by (rule merge_table_records [OF assms(2)])
    then show ?thesis
      using merge_loop_frame [of env ts "merge_table env a st"] by auto
  next
    case False
    with Cons.prems have "t \<in> set ts" by simp
    then show ?thesis by (simp add: Cons.IH)
  qed
qed

text \<open>The exceptions of loading, merging and writing all leave the try block.\<close>

lemma raised_loading_priority:
  "read_priority env t = Inl e \<Longrightarrow> raised_in_try env t st = Some e"
  by (simp add: raised_in_try_def try_body_def)

lemma raised_loading_fallback:
  "read_priority env t = Inr dfp \<Longrightarrow> read_fallback env t = Inl e \<Longrightarrow>
   raised_in_try env t st = Some e"
  by (simp add: raised_in_try_def try_body_def)

lemma raised_merging:
  "read_priority env t = Inr dfp \<Longrightarrow> read_fallback env t = Inr dff \<Longrightarrow>
   set (columns dfp) = set (columns dff) \<Longrightarrow>
   get_primary_keys (table_info env) t = Inr ks \<Longrightarrow> ks \<noteq> [] \<Longrightarrow>
   merge_tables_by_key (pd_module env) dfp dff ks = Inl e \<Longrightarrow> raised_in_try env t st = Some e"
  by (simp add: raised_in_try_def try_body_def merge_and_write_def)

lemma raised_writing:
  "read_priority env t = Inr dfp \<Longrightarrow> read_fallback env t = Inr dff \<Longrightarrow>
   set (columns dfp) = set (columns dff) \<Longrightarrow>
   get_primary_keys (table_info env) t = Inr ks \<Longrightarrow> ks \<noteq> [] \<Longrightarrow>
   merge_tables_by_key (pd_module env) dfp dff ks = Inr m \<Longrightarrow> to_sql_fault env t m = Some e \<Longrightarrow>
   raised_in_try env t st = Some e"
  by (simp add: raised_in_try_def try_body_def merge_and_write_def)

lemma run_reaches_loop:
  assumes "path_exists env pp" "path_exists env fp"
    "connect env pp = None" "connect env fp = None" "connect env op = None"
    "table_list env = Inr table_names"
  shows "merge_databases env pp fp op out0 =
     (say (MergeComplete op)
        (closed ConnOutput (closed ConnFallback (closed ConnPriority
           (merge_loop env table_names
              (opened ConnOutput (opened ConnFallback (opened ConnPriority
                 (initial_state out0)))))))),
      Returned)"
  using assms by (simp add: merge_databases_def Let_def)

text \<open>
  Claim C4. When both source paths exist, the three connections open and the table names
  are listed, the run returns, whatever the capabilities do for the single tables; the
  tables it attempts are exactly the listed tables, each once and in order; and every
  exception that leaves the \<^verbatim>\<open>try\<close> block of a table (raised while loading, merging or
  writing it) is recorded in the printed lines.
\<close>

theorem every_table_attempted:
  assumes "path_exists env priority_db_path" "path_exists env fallback_db_path"
    "connect env priority_db_path = None" "connect env fallback_db_path = None"
    "connect env output_db_path = None"
    "table_list env = Inr table_names"
  shows "snd (merge_databases env priority_db_path fallback_db_path output_db_path out0)
           = Returned \<and>
         attempted (printed (fst (merge_databases env priority_db_path fallback_db_path
                                    output_db_path out0))) = table_names \<and>
         (\<forall>t \<in> set table_names. \<forall>e st. raised_in_try env t st = Some e \<longrightarrow>
            ErrorMerging t e \<in> set (printed (fst (merge_databases env priority_db_path
                                                     fallback_db_path output_db_path out0))))"
proof -
  let ?st1 = "opened ConnOutput (opened ConnFallback (opened ConnPriority (initial_state out0)))"
  have a: "attempted (printed (merge_loop env table_names ?st1)) = table_names"
    using merge_loop_frame [of env table_names ?st1]
    by (simp add: opened_simps initial_state_def)
  have r: "ErrorMerging t e \<in> set (printed (merge_loop env table_names ?st1))"
    if "t \<in> set table_names" "raised_in_try env t st = Some e" for t e st
    using that by (rule merge_loop_records)
  show ?thesis
    unfolding run_reaches_loop [OF assms]
    using a r by (auto simp: say_simps closed_simps attempted_append)
qed

theorem every_table_attempted_witness:
  "path_exists demo_env ''new.db'' \<and> path_exists demo_env ''old.db'' \<and>
   connect demo_env ''new.db'' = None \<and> connect demo_env ''old.db'' = None \<and>
   connect demo_env ''out.db'' = None \<and>
   table_list demo_env = Inr [''users'', ''broken'', ''layout'', ''notes'', ''MATCHES''] \<and>
   raised_in_try demo_env ''broken'' (initial_state Map.empty)
     = Some (DatabaseError ''disk I/O error'') \<and>
   snd (merge_databases demo_env ''new.db'' ''old.db'' ''out.db'' Map.empty) = Returned \<and>
   attempted (printed (fst (merge_databases demo_env ''new.db'' ''old.db'' ''out.db'' Map.empty)))
     = [''users'', ''broken'', ''layout'', ''notes'', ''MATCHES''] \<and>
   ErrorMerging ''broken'' (DatabaseError ''disk I/O error'')
     \<in> set (printed (fst (merge_databases demo_env ''new.db'' ''old.db'' ''out.db'' Map.empty)))"
proof -
  have h: "path_exists demo_env ''new.db''" "path_exists demo_env ''old.db''"
    "connect demo_env ''new.db'' = None" "connect demo_env ''old.db'' = None"
    "connect demo_env ''out.db'' = None"
    "table_list demo_env = Inr [''users'', ''broken'', ''layout'', ''notes'', ''MATCHES'']"
    by (simp_all add: demo_env_def)
  have e: "raised_in_try demo_env ''broken'' (initial_state Map.empty)
      = Some (DatabaseError ''disk I/O error'')"
    by (simp add: raised_in_try_def try_body_def demo_env_def)
  have b: "''broken'' \<in> set [''users'', ''broken'', ''layout'', ''notes'', ''MATCHES'']"
    by simp
  from every_table_attempted [OF h, of Map.empty] e b h show ?thesis by blast
qed

text \<open>
  Claim C5, as stated, fails. The connections are closed by three statements after the
  loop, not by a cleanup that every exit path runs. When the priority file exists but its
  tables cannot be listed, the exception leaves \<^verbatim>\<open>merge_databases\<close> with all three
  connections open.
\<close>

theorem handles_left_open:
  "path_exists unreadable_env ''new.db'' \<and> path_exists unreadable_env ''old.db'' \<and>
   snd (merge_databases unreadable_env ''new.db'' ''old.db'' ''out.db'' Map.empty)
     = Uncaught (DatabaseError ''file is not a database'') \<and>
   open_handles (fst (merge_databases unreadable_env ''new.db'' ''old.db'' ''out.db'' Map.empty))
     = [ConnPriority, ConnFallback, ConnOutput]"
  by (simp add: unreadable_env_def demo_env_def merge_databases_def initial_state_def
        opened_simps)

text \<open>
  Claim C5, amended. Every run that returns, and every run that aborts through
  \<^verbatim>\<open>sys.exit(1)\<close> on a missing source path, ends with no connection open; this includes
  the runs in which tables raised errors, since those errors never leave the loop.
\<close>

theorem handles_closed_on_return:
  assumes "snd (merge_databases env priority_db_path fallback_db_path output_db_path out0)
             = Returned \<or>
           snd (merge_databases env priority_db_path fallback_db_path output_db_path out0)
             = SysExit 1"
  shows "open_handles (fst (merge_databases env priority_db_path fallback_db_path
                              output_db_path out0)) = []"
  using assms merge_loop_frame [of env _
      "opened ConnOutput (opened ConnFallback (opened ConnPriority (initial_state out0)))"]
  by (auto simp: merge_databases_def Let_def say_simps opened_simps closed_simps
        initial_state_def split: option.splits sum.splits if_splits)

theorem handles_closed_on_return_witness:
  "snd (merge_databases demo_env ''new.db'' ''old.db'' ''out.db'' Map.empty) = Returned \<and>
   ErrorMerging ''broken'' (DatabaseError ''disk I/O error'')
     \<in> set (printed (fst (merge_databases demo_env ''new.db'' ''old.db'' ''out.db'' Map.empty))) \<and>
   open_handles (fst (merge_databases demo_env ''new.db'' ''old.db'' ''out.db'' Map.empty)) = []"
proof -
  have r: "snd (merge_databases demo_env ''new.db'' ''old.db'' ''out.db'' Map.empty) = Returned"
    by code_simp
  have e: "ErrorMerging ''broken'' (DatabaseError ''disk I/O error'')
     \<in> set (printed (fst (merge_databases demo_env ''new.db'' ''old.db'' ''out.db'' Map.empty)))"
    by code_simp
  from r have "snd (merge_databases demo_env ''new.db'' ''old.db'' ''out.db'' Map.empty) = Returned \<or>
      snd (merge_databases demo_env ''new.db'' ''old.db'' ''out.db'' Map.empty) = SysExit 1"
    by (rule disjI1)
  from handles_closed_on_return [OF this] r e show ?thesis by blast
qed

text \<open>
  Claim C6. If the priority path or the fallback path does not exist, the run leaves
  through \<^verbatim>\<open>sys.exit(1)\<close>; it has printed one line, naming a missing source path; no
  table was attempted, no connection was opened and the output database is as it was.
\<close>

theorem missing_source_aborts:
  assumes "\<not> path_exists env priority_db_path \<or> \<not> path_exists env fallback_db_path"
  shows "snd (merge_databases env priority_db_path fallback_db_path output_db_path out0)
           = SysExit 1 \<and>
         output_db (fst (merge_databases env priority_db_path fallback_db_path
                           output_db_path out0)) = out0 \<and>
         open_handles (fst (merge_databases env priority_db_path fallback_db_path
                              output_db_path out0)) = [] \<and>
         attempted (printed (fst (merge_databases env priority_db_path fallback_db_path
                                    output_db_path out0))) = [] \<and>
         (\<exists>path. printed (fst (merge_databases env priority_db_path fallback_db_path
                                  output_db_path out0)) = [FileNotFound path] \<and>
                 \<not> path_exists env path \<and>
                 (path = priority_db_path \<or> path = fallback_db_path))"
  using assms
  by (auto simp: merge_databases_def Let_def say_simps initial_state_def)

theorem missing_source_aborts_witness:
  "\<not> path_exists demo_env ''missing.db'' \<and>
   snd (merge_databases demo_env ''new.db'' ''missing.db'' ''out.db'' Map.empty) = SysExit 1 \<and>
   printed (fst (merge_databases demo_env ''new.db'' ''missing.db'' ''out.db'' Map.empty))
     = [FileNotFound ''missing.db''] \<and>
   output_db (fst (merge_databases demo_env ''new.db'' ''missing.db'' ''out.db'' Map.empty))
     = Map.empty"
proof -
  have h: "\<not> path_exists demo_env ''missing.db''" by (simp add: demo_env_def)
  then have d: "\<not> path_exists demo_env ''new.db'' \<or> \<not> path_exists demo_env ''missing.db''"
    by (rule disjI2)
  have p: "path_exists demo_env ''new.db''" by (simp add: demo_env_def)
  from missing_source_aborts [OF d, of "''out.db''" Map.empty] h p show ?thesis
    by auto
qed


text \<open>A table that no iteration writes is in the output what it was before the run.\<close>

lemma merge_loop_untouched:
  assumes "\<And>t' st. output_db (merge_table env t' st) t = output_db st t"
  shows "output_db (merge_loop env ts st) t = output_db st t"
  by (induction ts arbitrary: st) (simp_all add: assms)

lemma run_untouched:
  assumes "\<And>t' st. output_db (merge_table env t' st) t = output_db st t"
  shows "output_db (fst (merge_databases env pp fp op out0)) t = out0 t"
  by (simp add: merge_databases_def Let_def say_simps opened_simps closed_simps
        initial_state_def merge_loop_untouched [OF assms] split: option.split sum.split)

lemma merge_table_other:
  "t' \<noteq> t \<Longrightarrow> output_db (merge_table env t' st) t = output_db st t"
  using merge_table_frame [of env t' st] by simp

text \<open>
  Claim C7, as stated, fails in one part: the output may hold a table of the skipped name.
  The output database is opened, not created: when the file at the output path already
  holds a table \<^verbatim>\<open>layout\<close>, that table is still there after the run that skipped
  \<^verbatim>\<open>layout\<close>.
\<close>

theorem schema_mismatch_table_remains:
  "read_priority demo_env ''layout'' = Inr layout_priority \<and>
   read_fallback demo_env ''layout'' = Inr layout_fallback \<and>
   set (columns layout_priority) \<noteq> set (columns layout_fallback) \<and>
   output_db (fst (merge_databases demo_env ''new.db'' ''old.db'' ''out.db''
                     [''layout'' \<mapsto> layout_fallback])) ''layout''
     = Some layout_fallback"
  by code_simp

text \<open>
  Claim C7, amended. For a table whose two row sets load and have different sets of column
  names, the iteration only prints its two lines, no exception leaves the \<^verbatim>\<open>try\<close> block,
  the loop goes on with the next table, and after the run the output holds under that
  name exactly what it held before the run (nothing, when the output started without it).
\<close>

theorem schema_mismatch_skipped:
  assumes "read_priority env t = Inr dfp" "read_fallback env t = Inr dff"
    "set (columns dfp) \<noteq> set (columns dff)"
  shows "merge_table env t st = say (SchemaMismatch t) (say (MergingTable t) st) \<and>
         raised_in_try env t st = None \<and>
         merge_loop env (t # table_names) st =
           merge_loop env table_names (say (SchemaMismatch t) (say (MergingTable t) st)) \<and>
         output_db (fst (merge_databases env priority_db_path fallback_db_path
                           output_db_path out0)) t = out0 t"
proof -
  have a: "merge_table env t st = say (SchemaMismatch t) (say (MergingTable t) st)" for st
    using assms by (simp add: merge_table_def try_body_def)
  have b: "raised_in_try env t st = None"
    using assms by (simp add: raised_in_try_def try_body_def)
  have "output_db (merge_table env t' st) t = output_db st t" for t' st
    by (cases "t' = t") (simp_all add: a say_simps merge_table_other)
  then have c: "output_db (fst (merge_databases env priority_db_path fallback_db_path
                           output_db_path out0)) t = out0 t"
    by (rule run_untouched)
  from a b c show ?thesis by simp
qed

theorem schema_mismatch_skipped_witness:
  "read_priority demo_env ''layout'' = Inr layout_priority \<and>
   read_fallback demo_env ''layout'' = Inr layout_fallback \<and>
   set (columns layout_priority) \<noteq> set (columns layout_fallback) \<and>
   output_db (fst (merge_databases demo_env ''new.db'' ''old.db'' ''out.db'' Map.empty))
     ''layout'' = None \<and>
   raised_in_try demo_env ''layout'' (initial_state Map.empty) = None"
proof -
  have h: "read_priority demo_env ''layout'' = Inr layout_priority"
    "read_fallback demo_env ''layout'' = Inr layout_fallback"
    "set (columns layout_priority) \<noteq> set (columns layout_fallback)"
    by code_simp+
  from schema_mismatch_skipped [OF h, of "initial_state Map.empty" "[]" "''new.db''" "''old.db''"
      "''out.db''" Map.empty] h
  show ?thesis by simp
qed


text \<open>Without a declared primary key \<^verbatim>\<open>get_primary_keys\<close> returns the empty list.\<close>

lemma no_declared_key:
  assumes "table_info env table = Inr info" "declared_primary_key info = []"
  shows "get_primary_keys (table_info env) table = Inr []"
proof -
  from assms(2) have "\<forall>row \<in> set info. ti_pk row = 0"
    by (auto simp: declared_primary_key_def filter_empty_conv)
  then have "[ti_name row. row \<leftarrow> info, ti_pk row = 1] = []"
    by (induction info) auto
  with assms(1) show ?thesis by (simp add: get_primary_keys_def)
qed

text \<open>A table that every iteration for its name writes holds that frame after the loop.\<close>

lemma merge_loop_written:
  assumes "\<And>st. output_db (merge_table env t st) t = Some m"
  shows "t \<in> set ts \<or> output_db st t = Some m \<Longrightarrow>
         output_db (merge_loop env ts st) t = Some m"
proof (induction ts arbitrary: st)
  case Nil
  then show ?case by simp
next
  case (Cons a ts)
  have "t \<in> set ts \<or> output_db (merge_table env a st) t = Some m"
  proof (cases "t = a")
    case True
    then show ?thesis using assms by simp
  next
    case False
    with Cons.prems show ?thesis by (auto simp: merge_table_other)
  qed
  then show ?case by (simp add: Cons.IH)
qed

text \<open>
  Claim C9. For a table whose row sets load with the same column set and whose schema
  declares no primary key: if its name is the special case (\<^verbatim>\<open>matches\<close> after
  \<^verbatim>\<open>lower()\<close>), the \<^verbatim>\<open>try\<close> block calls \<^verbatim>\<open>merge_tables_by_key\<close> with the key columns
  \<^verbatim>\<open>key\<close>, \<^verbatim>\<open>team_key\<close> and writes what it returns under the table's name, so that after a
  run that lists the table the output holds the merged rows; otherwise the table is
  skipped: the iteration leaves the output database unchanged, and after the run the
  output holds under that name what it held before.
\<close>

theorem special_case_merges_or_skip:
  assumes "read_priority env table = Inr dfp" "read_fallback env table = Inr dff"
    "set (columns dfp) = set (columns dff)"
    "table_info env table = Inr info" "declared_primary_key info = []"
  shows "(lower table = ''matches'' \<longrightarrow>
            try_body env table st =
              (case merge_tables_by_key (pd_module env) dfp dff [''key'', ''team_key''] of
                 Inl e \<Rightarrow> Inl (e, say (UsingFallbackKeys table [''key'', ''team_key'']) st)
               | Inr df_merged \<Rightarrow>
                   (case to_sql_fault env table df_merged of
                      Some e \<Rightarrow>
                        Inl (e, say (UsingFallbackKeys table [''key'', ''team_key'']) st)
                    | None \<Rightarrow>
                        Inr (say (Merged (length (rows df_merged)) table)
                               ((say (UsingFallbackKeys table [''key'', ''team_key'']) st)
                                  \<lparr>output_db := (output_db st)(table \<mapsto> df_merged)\<rparr>)))) \<and>
            (\<forall>m. merge_tables_by_key (pd_module env) dfp dff [''key'', ''team_key''] = Inr m \<and>
                 to_sql_fault env table m = None \<and>
                 path_exists env priority_db_path \<and> path_exists env fallback_db_path \<and>
                 connect env priority_db_path = None \<and> connect env fallback_db_path = None \<and>
                 connect env output_db_path = None \<and>
                 table_list env = Inr table_names \<and> table \<in> set table_names \<longrightarrow>
                 output_db (fst (merge_databases env priority_db_path fallback_db_path
                                   output_db_path out0)) table = Some m)) \<and>
         (lower table \<noteq> ''matches'' \<longrightarrow>
            try_body env table st = Inr (say (NoPrimaryKey table) st) \<and>
            output_db (merge_table env table st) = output_db st \<and>
            output_db (fst (merge_databases env priority_db_path fallback_db_path
                              output_db_path out0)) table = out0 table)"
proof -
  have k: "get_primary_keys (table_info env) table = Inr []"
    by (rule no_declared_key [OF assms(4,5)])
  have t: "try_body env table st' =
      (if lower table = ''matches''
       then merge_and_write env table dfp dff [''key'', ''team_key'']
              (say (UsingFallbackKeys table [''key'', ''team_key'']) st')
       else Inr (say (NoPrimaryKey table) st'))" for st'
    using assms(1-3) k by (simp add: try_body_def)
  have special: "output_db (fst (merge_databases env priority_db_path fallback_db_path
                                   output_db_path out0)) table = Some m"
    if l: "lower table = ''matches''"
      and m: "merge_tables_by_key (pd_module env) dfp dff [''key'', ''team_key''] = Inr m"
        "to_sql_fault env table m = None"
      and r: "path_exists env priority_db_path" "path_exists env fallback_db_path"
        "connect env priority_db_path = None" "connect env fallback_db_path = None"
        "connect env output_db_path = None" "table_list env = Inr table_names"
      and i: "table \<in> set table_names" for m
  proof -
    have w: "output_db (merge_table env table st') table = Some m" for st'
      by (simp add: merge_table_def t l merge_and_write_def m say_simps)
    have "output_db (merge_loop env table_names st') table = Some m" for st'
      using i by (simp add: merge_loop_written [OF w])
    then show ?thesis
      unfolding run_reaches_loop [OF r] by (simp add: say_simps closed_simps)
  qed
  have skip: "output_db (fst (merge_databases env priority_db_path fallback_db_path
                              output_db_path out0)) table = out0 table"
    if l: "lower table \<noteq> ''matches''"
  proof -
    have "output_db (merge_table env t' st') table = output_db st' table" for t' st'
    proof (cases "t' = table")
      case True
      then show ?thesis by (simp add: merge_table_def t l say_simps)
    next
      case False
      then show ?thesis by (rule merge_table_other)
    qed
    then show ?thesis by (rule run_untouched)
  qed
  show ?thesis
    using special skip
    by (auto simp: t merge_table_def merge_and_write_def say_simps split: sum.split option.split)
qed


theorem special_case_merges_or_skip_witness:
  "read_priority demo_env ''notes'' = Inr matches_priority \<and>
   read_fallback demo_env ''notes'' = Inr matches_fallback \<and>
   table_info demo_env ''notes'' = Inr no_key_info \<and>
   read_priority demo_env ''MATCHES'' = Inr matches_priority \<and>
   read_fallback demo_env ''MATCHES'' = Inr matches_fallback \<and>
   table_info demo_env ''MATCHES'' = Inr no_key_info \<and>
   set (columns matches_priority) = set (columns matches_fallback) \<and>
   declared_primary_key no_key_info = [] \<and>
   lower ''notes'' \<noteq> ''matches'' \<and> lower ''MATCHES'' = ''matches'' \<and>
   merge_tables_by_key (pd_module demo_env) matches_priority matches_fallback
     [''key'', ''team_key''] = Inr matches_merged \<and>
   to_sql_fault demo_env ''MATCHES'' matches_merged = None \<and>
   table_list demo_env = Inr [''users'', ''broken'', ''layout'', ''notes'', ''MATCHES''] \<and>
   output_db (fst (merge_databases demo_env ''new.db'' ''old.db'' ''out.db'' Map.empty))
     ''MATCHES'' = Some matches_merged \<and>
   try_body demo_env ''notes'' (initial_state Map.empty)
     = Inr (say (NoPrimaryKey ''notes'') (initial_state Map.empty)) \<and>
   output_db (fst (merge_databases demo_env ''new.db'' ''old.db'' ''out.db'' Map.empty))
     ''notes'' = None"
proof -
  have n: "read_priority demo_env ''notes'' = Inr matches_priority"
    "read_fallback demo_env ''notes'' = Inr matches_fallback"
    "set (columns matches_priority) = set (columns matches_fallback)"
    "table_info demo_env ''notes'' = Inr no_key_info"
    "declared_primary_key no_key_info = []"
    by code_simp+
  have m: "read_priority demo_env ''MATCHES'' = Inr matches_priority"
    "read_fallback demo_env ''MATCHES'' = Inr matches_fallback"
    "set (columns matches_priority) = set (columns matches_fallback)"
    "table_info demo_env ''MATCHES'' = Inr no_key_info"
    "declared_primary_key no_key_info = []"
    by code_simp+
  have l: "lower ''notes'' \<noteq> ''matches''" "lower ''MATCHES'' = ''matches''"
    by code_simp+
  have g: "merge_tables_by_key (pd_module demo_env) matches_priority matches_fallback
     [''key'', ''team_key''] = Inr matches_merged"
    "to_sql_fault demo_env ''MATCHES'' matches_merged = None"
    by code_simp+
  have r: "path_exists demo_env ''new.db''" "path_exists demo_env ''old.db''"
    "connect demo_env ''new.db'' = None" "connect demo_env ''old.db'' = None"
    "connect demo_env ''out.db'' = None"
    "table_list demo_env = Inr [''users'', ''broken'', ''layout'', ''notes'', ''MATCHES'']"
    "''MATCHES'' \<in> set [''users'', ''broken'', ''layout'', ''notes'', ''MATCHES'']"
    by (simp_all add: demo_env_def)
  from special_case_merges_or_skip [OF m, where priority_db_path = "''new.db''"
      and fallback_db_path = "''old.db''" and output_db_path = "''out.db''"
      and table_names = "[''users'', ''broken'', ''layout'', ''notes'', ''MATCHES'']"
      and ?out0.0 = Map.empty and st = "initial_state Map.empty"] l(2) g r
  have a: "output_db (fst (merge_databases demo_env ''new.db'' ''old.db'' ''out.db'' Map.empty))
     ''MATCHES'' = Some matches_merged"
    by blast
  from special_case_merges_or_skip [OF n, where priority_db_path = "''new.db''"
      and fallback_db_path = "''old.db''" and output_db_path = "''out.db''"
      and table_names = "[''users'', ''broken'', ''layout'', ''notes'', ''MATCHES'']"
      and ?out0.0 = Map.empty and st = "initial_state Map.empty"] l(1)
  have b: "try_body demo_env ''notes'' (initial_state Map.empty)
     = Inr (say (NoPrimaryKey ''notes'') (initial_state Map.empty))"
    "output_db (fst (merge_databases demo_env ''new.db'' ''old.db'' ''out.db'' Map.empty))
     ''notes'' = None"
    by blast+
  from n m l g r a b show ?thesis by blast
qed

text \<open>
  Claim C10. The special case is matched on the lower-cased name. For every table name
  whose lower-cased form is \<^verbatim>\<open>matches\<close>, a table without a declared primary key goes
  through the merge with the key columns \<^verbatim>\<open>key\<close>, \<^verbatim>\<open>team_key\<close>; when that merge and the
  write succeed, the merged rows are in the output under the table's name. The witness
  is the table \<^verbatim>\<open>MATCHES\<close>.
\<close>

theorem special_case_any_letter_case:
  assumes "read_priority env table = Inr dfp" "read_fallback env table = Inr dff"
    "set (columns dfp) = set (columns dff)"
    "table_info env table = Inr info" "declared_primary_key info = []"
    "lower table = ''matches''"
  shows "merge_table env table st =
           (case merge_and_write env table dfp dff [''key'', ''team_key'']
                   (say (UsingFallbackKeys table [''key'', ''team_key''])
                      (say (MergingTable table) st)) of
              Inl (e, st') \<Rightarrow> say (ErrorMerging table e) st'
            | Inr st' \<Rightarrow> st') \<and>
         (\<forall>m. merge_tables_by_key (pd_module env) dfp dff [''key'', ''team_key''] = Inr m \<and>
              to_sql_fault env table m = None \<longrightarrow>
              output_db (merge_table env table st) table = Some m \<and>
              printed (merge_table env table st) =
                printed st @ [MergingTable table,
                              UsingFallbackKeys table [''key'', ''team_key''],
                              Merged (length (rows m)) table])"
proof -
  have k: "get_primary_keys (table_info env) table = Inr []"
    by (rule no_declared_key [OF assms(4,5)])
  have t: "merge_table env table st =
           (case merge_and_write env table dfp dff [''key'', ''team_key'']
                   (say (UsingFallbackKeys table [''key'', ''team_key''])
                      (say (MergingTable table) st)) of
              Inl (e, st') \<Rightarrow> say (ErrorMerging table e) st'
            | Inr st' \<Rightarrow> st')"
    using assms(1-3,6) k by (simp add: merge_table_def try_body_def)
  show ?thesis
    unfolding t by (simp add: merge_and_write_def say_simps)
qed

theorem special_case_any_letter_case_witness:
  "lower ''Matches'' = ''matches'' \<and> lower ''MATCHES'' = ''matches'' \<and>
   read_priority demo_env ''MATCHES'' = Inr matches_priority \<and>
   read_fallback demo_env ''MATCHES'' = Inr matches_fallback \<and>
   table_info demo_env ''MATCHES'' = Inr no_key_info \<and>
   declared_primary_key no_key_info = [] \<and>
   merge_tables_by_key (pd_module demo_env) matches_priority matches_fallback [''key'', ''team_key'']
     = Inr matches_merged \<and>
   to_sql_fault demo_env ''MATCHES'' matches_merged = None \<and>
   output_db (merge_table demo_env ''MATCHES'' (initial_state Map.empty)) ''MATCHES''
     = Some matches_merged \<and>
   printed (merge_table demo_env ''MATCHES'' (initial_state Map.empty))
     = [MergingTable ''MATCHES'', UsingFallbackKeys ''MATCHES'' [''key'', ''team_key''],
        Merged 2 ''MATCHES'']"
proof -
  have m: "read_priority demo_env ''MATCHES'' = Inr matches_priority"
    "read_fallback demo_env ''MATCHES'' = Inr matches_fallback"
    "set (columns matches_priority) = set (columns matches_fallback)"
    "table_info demo_env ''MATCHES'' = Inr no_key_info"
    "declared_primary_key no_key_info = []"
    "lower ''MATCHES'' = ''matches''"
    by code_simp+
  have l: "lower ''Matches'' = ''matches''" by code_simp
  have g: "merge_tables_by_key (pd_module demo_env) matches_priority matches_fallback [''key'', ''team_key'']
     = Inr matches_merged"
    "to_sql_fault demo_env ''MATCHES'' matches_merged = None"
    "length (rows matches_merged) = 2"
    "printed (initial_state Map.empty :: string run_state) = []"
    by code_simp+
  from special_case_any_letter_case [OF m, of "initial_state Map.empty"]
  have "\<forall>d. merge_tables_by_key (pd_module demo_env) matches_priority matches_fallback [''key'', ''team_key''] = Inr d \<and>
            to_sql_fault demo_env ''MATCHES'' d = None \<longrightarrow>
            output_db (merge_table demo_env ''MATCHES'' (initial_state Map.empty)) ''MATCHES''
              = Some d \<and>
            printed (merge_table demo_env ''MATCHES'' (initial_state Map.empty)) =
              printed (initial_state Map.empty :: string run_state) @
                [MergingTable ''MATCHES'', UsingFallbackKeys ''MATCHES'' [''key'', ''team_key''],
                 Merged (length (rows d)) ''MATCHES'']"
    by (rule conjunct2)
  with g(1,2) have "output_db (merge_table demo_env ''MATCHES'' (initial_state Map.empty)) ''MATCHES''
              = Some matches_merged \<and>
            printed (merge_table demo_env ''MATCHES'' (initial_state Map.empty)) =
              printed (initial_state Map.empty :: string run_state) @
                [MergingTable ''MATCHES'', UsingFallbackKeys ''MATCHES'' [''key'', ''team_key''],
                 Merged (length (rows matches_merged)) ''MATCHES'']"
    by blast
  then have "output_db (merge_table demo_env ''MATCHES'' (initial_state Map.empty)) ''MATCHES''
     = Some matches_merged \<and>
   printed (merge_table demo_env ''MATCHES'' (initial_state Map.empty))
     = [MergingTable ''MATCHES'', UsingFallbackKeys ''MATCHES'' [''key'', ''team_key''],
        Merged 2 ''MATCHES'']"
    by (simp add: g(3,4))
  with m l g show ?thesis by simp
qed

end
